theory Spec2Isabelle
  imports Complex_Main
begin

section \<open>Arrays, Python values and errors\<close>

text \<open>
  The module \<^verbatim>\<open>GPToeplitz.py\<close> works on numpy arrays of doubles. For the solver and for
  the builders whose results do not depend on the arithmetic, a double is idealised as a
  real number (no rounding, no NaN or infinity); the full covariance matrix with the affine
  mean transform is computed in binary64 arithmetic with rounding. A one-dimensional
  array is an object with a buffer that the native routine may write in place, so
  arrays are references into an explicit heap of buffers; two arguments alias when
  they are the same reference.
\<close>

type_synonym ref = nat

type_synonym heap = "ref \<Rightarrow> real list"

text \<open>\<^verbatim>\<open>a.size\<close>: the number of elements of the array.\<close>

definition size_nd :: "heap \<Rightarrow> ref \<Rightarrow> nat" where
  "size_nd h a = length (h a)"

datatype pyerror = AssertionError | TypeError | IndexError | ValueError

text \<open>
  The values \<^verbatim>\<open>LTZSolve\<close> handles: what ctypes hands back for the native routine's
  \<^verbatim>\<open>c_double\<close> (kept abstract as \<open>'r\<close>), an array object, and a tuple.
\<close>

datatype 'r pyval = CDouble 'r | NDArray ref | Tuple "'r pyval list"

section \<open>The wrapper \<^verbatim>\<open>LTZSolve\<close>\<close>

text \<open>
  Lines 13--18 bind \<^verbatim>\<open>LTZSolveC\<close> to the symbol \<^verbatim>\<open>LevinsonTrenchZoharSolve\<close> of a shared
  library, with three array pointers and a \<^verbatim>\<open>c_int\<close> as arguments and a \<^verbatim>\<open>c_double\<close> as
  result. The routine can read and write the buffers it is given and returns one
  double; it is a parameter of the wrapper. It has no way to raise a Python exception:
  all that comes back from it is the double and the contents of the buffers. The size
  handed over as \<^verbatim>\<open>c_int\<close> is taken to fit (arrays of fewer than \<open>2\<^sup>3\<^sup>1\<close> elements).
\<close>

type_synonym 'r native = "heap \<Rightarrow> ref \<Rightarrow> ref \<Rightarrow> ref \<Rightarrow> int \<Rightarrow> 'r \<times> heap"

text \<open>
  \<^verbatim>\<open>
  def LTZSolve(a,b,x):
    assert a.size == b.size
    assert a.size == x.size
    logdetK = LTZSolveC(a,x,b,a.size)
    return logdetK, x
  \<close>
\<close>

definition LTZSolve ::
  "'r native \<Rightarrow> heap \<Rightarrow> ref \<Rightarrow> ref \<Rightarrow> ref \<Rightarrow> (pyerror + 'r pyval) \<times> heap" where
  "LTZSolve LTZSolveC h a b x =
     (if size_nd h a \<noteq> size_nd h b then (Inl AssertionError, h)
      else if size_nd h a \<noteq> size_nd h x then (Inl AssertionError, h)
      else (case LTZSolveC h a x b (int (size_nd h a)) of
              (logdetK, h') \<Rightarrow> (Inr (Tuple [CDouble logdetK, NDArray x]), h')))"

text \<open>
  A call with positional arguments: \<^verbatim>\<open>LTZSolve\<close> has exactly three parameters and no
  defaults, so Python raises \<^verbatim>\<open>TypeError\<close> for any other number of arguments, before
  the body runs.
\<close>

definition call_LTZSolve ::
  "'r native \<Rightarrow> heap \<Rightarrow> ref list \<Rightarrow> (pyerror + 'r pyval) \<times> heap" where
  "call_LTZSolve LTZSolveC h args =
     (case args of
        [a, b, x] \<Rightarrow> LTZSolve LTZSolveC h a b x
      | _ \<Rightarrow> (Inl TypeError, h))"

section \<open>The numpy and scipy primitives the covariance builders use\<close>

text \<open>
  A two-dimensional array or \<^verbatim>\<open>np.matrix\<close> of doubles is the list of its rows. An array
  with no rows is \<open>[]\<close>, whatever its number of columns.
\<close>

type_synonym vector = "real list"

type_synonym matrix = "real list list"

definition nrows :: "matrix \<Rightarrow> nat" where
  "nrows M = length M"

definition ncols :: "matrix \<Rightarrow> nat" where
  "ncols M = (case M of [] \<Rightarrow> 0 | r # _ \<Rightarrow> length r)"

text \<open>
  \<^verbatim>\<open>scipy.linalg.toeplitz(c, r)\<close> lays out \<^verbatim>\<open>vals = concatenate((c[::-1], r[1:]))\<close> and
  returns the \<^verbatim>\<open>len(c)\<close> by \<^verbatim>\<open>len(r)\<close> array whose entry \<open>(i, j)\<close> is
  \<^verbatim>\<open>vals[len(c) - 1 - i + j]\<close> (a strided view of \<^verbatim>\<open>vals\<close>, copied).
\<close>

definition toeplitz :: "vector \<Rightarrow> vector \<Rightarrow> matrix" where
  "toeplitz c r =
     (let vals = rev c @ tl r
      in map (\<lambda>i. map (\<lambda>j. vals ! (length c - 1 - i + j)) [0..<length r]) [0..<length c])"

text \<open>\<^verbatim>\<open>toeplitz(c)\<close> takes \<^verbatim>\<open>r = conjugate(c)\<close>, which is \<^verbatim>\<open>c\<close> for real input.\<close>

definition toeplitz_sym :: "vector \<Rightarrow> matrix" where
  "toeplitz_sym c = toeplitz c c"

text \<open>\<^verbatim>\<open>np.diag\<close> of a one-dimensional array: the square array with it on the diagonal.\<close>

definition diag_of_vector :: "vector \<Rightarrow> matrix" where
  "diag_of_vector v =
     map (\<lambda>i. map (\<lambda>j. if i = j then v ! i else 0) [0..<length v]) [0..<length v]"

text \<open>\<^verbatim>\<open>np.diag\<close> of a two-dimensional array: its main diagonal, as a one-dimensional array.\<close>

definition diag_of_matrix :: "matrix \<Rightarrow> vector" where
  "diag_of_matrix M = map (\<lambda>i. M ! i ! i) [0..<min (nrows M) (ncols M)]"

definition identity :: "nat \<Rightarrow> matrix" where
  "identity n = map (\<lambda>i. map (\<lambda>j. if i = j then 1 else 0) [0..<n]) [0..<n]"

text \<open>An array times a scalar: every entry is multiplied.\<close>

definition scale :: "matrix \<Rightarrow> real \<Rightarrow> matrix" where
  "scale M t = map (map (\<lambda>u. u * t)) M"

text \<open>
  \<^verbatim>\<open>*\<close> with an \<^verbatim>\<open>np.matrix\<close> operand is the matrix product; shapes that do not match
  raise \<^verbatim>\<open>ValueError\<close>.
\<close>

definition matmul :: "matrix \<Rightarrow> matrix \<Rightarrow> pyerror + matrix" where
  "matmul A B =
     (if ncols A \<noteq> nrows B then Inl ValueError
      else Inr (map (\<lambda>i. map (\<lambda>j. \<Sum>k\<leftarrow>[0..<ncols A]. A ! i ! k * B ! k ! j) [0..<ncols B])
                  [0..<nrows A]))"

text \<open>
  \<^verbatim>\<open>A += B\<close> adds in place; \<^verbatim>\<open>B\<close> is broadcast to the shape of \<^verbatim>\<open>A\<close>: along each axis it
  has the length of \<^verbatim>\<open>A\<close> or length 1, otherwise \<^verbatim>\<open>ValueError\<close>.
\<close>

definition iadd :: "matrix \<Rightarrow> matrix \<Rightarrow> pyerror + matrix" where
  "iadd A B =
     (if (nrows B = nrows A \<or> nrows B = 1) \<and> (ncols B = ncols A \<or> ncols B = 1)
      then Inr (map (\<lambda>i. map (\<lambda>j. A ! i ! j
                     + B ! (if nrows B = nrows A then i else 0)
                         ! (if ncols B = ncols A then j else 0)) [0..<ncols A])
                  [0..<nrows A])
      else Inl ValueError)"

text \<open>
  The mean function \<^verbatim>\<open>mf(mf_pars, mf_args)\<close> returns a scalar or a one-dimensional array.
  \<^verbatim>\<open>mf(...) * np.ones(q)\<close> broadcasts the two operands against each other.
\<close>

datatype mfval = Scalar real | Vector vector

fun times_ones :: "mfval \<Rightarrow> nat \<Rightarrow> pyerror + vector" where
  "times_ones (Scalar s) q = Inr (replicate q (s * 1))"
| "times_ones (Vector v) q =
     (if length v = q then Inr (map (\<lambda>u. u * 1) v)
      else if length v = 1 then Inr (replicate q (v ! 0 * 1))
      else if q = 1 then Inr (map (\<lambda>u. u * 1) v)
      else Inl ValueError)"

text \<open>\<^verbatim>\<open>theta[-1]\<close>: the last hyperparameter; \<^verbatim>\<open>IndexError\<close> when there is none.\<close>

definition theta_last :: "real list \<Rightarrow> pyerror + real" where
  "theta_last theta = (if theta = [] then Inl IndexError else Inr (last theta))"

section \<open>The covariance builders\<close>

text \<open>
  The input points \<^verbatim>\<open>X\<close> are the rows of an array, so \<^verbatim>\<open>X.shape[0]\<close> is their number. The
  kernel \<^verbatim>\<open>ToeplitzKernel(X, Y, theta, white_noise=...)\<close> and the mean function are
  callables supplied by the caller and are parameters here.
\<close>

type_synonym points = "real list list"

type_synonym kernel = "points \<Rightarrow> points \<Rightarrow> real list \<Rightarrow> bool \<Rightarrow> vector"

definition shape0 :: "points \<Rightarrow> nat" where
  "shape0 X = length X"

text \<open>
  \<^verbatim>\<open>
  def CovarianceMatrixBlockToeplitz(theta,X,Y,ToeplitzKernel):
    a = ToeplitzKernel(X,Y,theta,white_noise=False) #length q
    b = ToeplitzKernel(Y,X,theta,white_noise=False) #length n
    K = LA.toeplitz(a,b)
    return np.matrix(K)
  \<close>
\<close>

definition CovarianceMatrixBlockToeplitz :: "real list \<Rightarrow> points \<Rightarrow> points \<Rightarrow> kernel \<Rightarrow> matrix" where
  "CovarianceMatrixBlockToeplitz theta X Y ToeplitzKernel =
     (let a = ToeplitzKernel X Y theta False;
          b = ToeplitzKernel Y X theta False
      in toeplitz a b)"

text \<open>
  \<^verbatim>\<open>
  def CovarianceMatrixCornerDiagToeplitzMult(theta,X,ToeplitzKernel,mf,mf_pars,
                                             mf_args_pred,WhiteNoise=True):
    K = LA.toeplitz(ToeplitzKernel(X,X,theta,white_noise=False))
    ms = mf(mf_pars,mf_args_pred) * np.ones(X.shape[0])
    Kp = np.diag(ms) * np.matrix(K) * np.diag(ms)
    if WhiteNoise: Kp += (np.identity(X.shape[0]) * (theta[-1]**2))
    Kp = np.diag(np.diag(Kp))
    return np.matrix(Kp)
  \<close>
\<close>

definition CovarianceMatrixCornerDiagToeplitzMult ::
  "real list \<Rightarrow> points \<Rightarrow> kernel \<Rightarrow> ('p \<Rightarrow> 'a \<Rightarrow> mfval) \<Rightarrow> 'p \<Rightarrow> 'a \<Rightarrow> bool \<Rightarrow> pyerror + matrix" where
  "CovarianceMatrixCornerDiagToeplitzMult theta X ToeplitzKernel mf mf_pars mf_args_pred WhiteNoise =
     (let K = toeplitz_sym (ToeplitzKernel X X theta False)
      in case times_ones (mf mf_pars mf_args_pred) (shape0 X) of
           Inl e \<Rightarrow> Inl e
         | Inr ms \<Rightarrow>
             (case matmul (diag_of_vector ms) K of
                Inl e \<Rightarrow> Inl e
              | Inr D \<Rightarrow>
                  (case matmul D (diag_of_vector ms) of
                     Inl e \<Rightarrow> Inl e
                   | Inr Kp \<Rightarrow>
                       (case (if WhiteNoise
                              then (case theta_last theta of
                                      Inl e \<Rightarrow> Inl e
                                    | Inr t \<Rightarrow> iadd Kp (scale (identity (shape0 X)) (t ^ 2)))
                              else Inr Kp) of
                          Inl e \<Rightarrow> Inl e
                        | Inr Kp' \<Rightarrow> Inr (diag_of_vector (diag_of_matrix Kp'))))))"

section \<open>The full covariance matrix, in binary64 arithmetic\<close>






























section \<open>The self-test\<close>

text \<open>
  \<^verbatim>\<open>
  if __name__ == '__main__':
    a = np.array([30.,1.,0.3,0.2,0.1,0.2,0.3,15,12,8.])
    b = np.array([1.,1.2,2.3,0.2,1.,2.,1.3,1.,5,.2])
    logdet = np.log(np.linalg.det(LA.toeplitz(a)))
    x = np.mat(LA.toeplitz(a)).I * np.mat(b).T
    print (logdet,"\n",np.mat(x))
    logdet,x = LTZSolve(a,b)
    print (logdet,"\n",x)
  \<close>
  The two arrays are allocated at references 0 and 1. The dense determinant and
  inverse of lines 206--208 are only printed and are left out; the model is the call of
  line 211, which passes two arguments.
\<close>

definition main_a :: "real list" where
  "main_a = [30, 1, 0.3, 0.2, 0.1, 0.2, 0.3, 15, 12, 8]"

definition main_b :: "real list" where
  "main_b = [1, 1.2, 2.3, 0.2, 1, 2, 1.3, 1, 5, 0.2]"

definition main_block :: "'r native \<Rightarrow> heap \<Rightarrow> (pyerror + 'r pyval) \<times> heap" where
  "main_block LTZSolveC h =
     (let h1 = h(0 := main_a);
          h2 = h1(1 := main_b)
      in call_LTZSolve LTZSolveC h2 [0, 1])"

section \<open>The native routine\<close>

text \<open>
  Modelled from the spec: the native routine \<^verbatim>\<open>LevinsonTrenchZoharSolve\<close> that line 14 loads
  from a shared library; its C source is not among the Python sources. The model follows section 4.1 of the specification (the Levinson recursion with the
  log-determinant accumulated from the pivots) and its error taxonomy of section 7. The
  argument order (generating vector, solution buffer, right-hand side, length) is the one
  of the call in line 32. The double handed back is read as the log-determinant or as the
  signal of a detected failure; the specification leaves the encoding of that signal open.
  The routine gets raw pointers and trusts the length it is given: the model reads
  \<open>a[i]\<close>, \<open>b[i]\<close> and \<open>x[i]\<close> for \<open>i < n\<close> only, and \<^verbatim>\<open>LTZSolve\<close> calls it with
  \<open>n\<close> the common size of the three arrays.
\<close>

datatype ltz_error = InvalidDimension | SingularMatrix

datatype ltz_return = LogDet real | Failed ltz_error

text \<open>
  Modelled from the spec: the transient state of one call of the native routine (section
  3): the forward error filter of the current order (its leading coefficient is 1), the
  current pivot and the log-determinant so far.
\<close>

record ltz_state =
  filt :: "real list"
  pivot :: real
  logdet :: real

text \<open>
  Modelled from the spec: step 1 of the native routine's algorithm. The pivot
  \<open>p\<^sub>0 = a[0]\<close> is checked before the division; then \<open>x[0] = b[0] / a[0]\<close> and
  \<open>logdet = log p\<^sub>0\<close>.
\<close>

definition ltz_init :: "real list \<Rightarrow> real list \<Rightarrow> real list \<Rightarrow> ltz_error + ltz_state \<times> real list" where
  "ltz_init av bv xv =
     (if av ! 0 \<le> 0 then Inl SingularMatrix
      else Inr (\<lparr>filt = [1], pivot = av ! 0, logdet = ln (av ! 0)\<rparr>,
                [bv ! 0 / av ! 0] @ drop 1 xv))"

text \<open>
  Modelled from the spec: step 2 of the native routine's algorithm, at order \<open>k\<close>. The
  reflection coefficient is the cross-correlation of the
  generating vector with the filter, divided by the previous pivot; the new filter is
  the old one combined with its reverse scaled by the reflection coefficient; the pivot
  becomes \<open>p\<^sub>k = p\<^sub>k\<^sub>-\<^sub>1 (1 - \<gamma>\<^sup>2)\<close> and is checked before its logarithm is taken. The
  solution is extended in place: the residual of \<open>b[k]\<close> under the solution of order
  \<open>k - 1\<close>, divided by the pivot, scales the reversed filter, which is added to
  \<open>x[0..k-1]\<close>, and \<open>x[k]\<close> is written. Entries of \<open>x\<close> beyond \<open>k\<close> are not touched.
\<close>

definition ltz_order ::
  "real list \<Rightarrow> real list \<Rightarrow> real list \<Rightarrow> nat \<Rightarrow> ltz_state \<Rightarrow> ltz_error + ltz_state \<times> real list" where
  "ltz_order av bv xv k s =
     (let gamma = (\<Sum>j\<leftarrow>[0..<k]. av ! (k - j) * filt s ! j) / pivot s;
          f' = map (\<lambda>j. (filt s @ [0]) ! j - gamma * (0 # rev (filt s)) ! j) [0..<Suc k];
          p' = pivot s * (1 - gamma ^ 2)
      in if p' \<le> 0 then Inl SingularMatrix
         else let r = bv ! k - (\<Sum>j\<leftarrow>[0..<k]. av ! (k - j) * xv ! j);
                  mu = r / p';
                  xv' = map (\<lambda>j. xv ! j + mu * f' ! (k - j)) [0..<k] @ [mu] @ drop (Suc k) xv
              in Inr (\<lparr>filt = f', pivot = p', logdet = logdet s + ln p'\<rparr>, xv'))"

text \<open>
  Modelled from the spec: the native routine's loop over the orders \<open>k, ..., n - 1\<close>.
  Every order reads the three buffers from the heap as they are then, and writes \<open>x\<close>
  back (the in-place forward sweep of section 5).
\<close>

function ltz_loop ::
  "heap \<Rightarrow> ref \<Rightarrow> ref \<Rightarrow> ref \<Rightarrow> nat \<Rightarrow> nat \<Rightarrow> ltz_state \<Rightarrow> ltz_return \<times> heap" where
  "ltz_loop h a x b n k s =
     (if n \<le> k then (LogDet (logdet s), h)
      else (case ltz_order (h a) (h b) (h x) k s of
              Inl e \<Rightarrow> (Failed e, h)
            | Inr (s', xv') \<Rightarrow> ltz_loop (h(x := xv')) a x b n (Suc k) s'))"
  by pat_completeness auto
termination
  by (relation "measure (\<lambda>(h, a, x, b, n, k, s). n - k)") auto

text \<open>
  Modelled from the spec: the native routine itself. A length below 1 is rejected before
  anything is read or written; otherwise step 1 and then the orders \<open>1, ..., n - 1\<close>.
\<close>

definition LevinsonTrenchZoharSolve :: "ltz_return native" where
  "LevinsonTrenchZoharSolve h a x b n =
     (if n < 1 then (Failed InvalidDimension, h)
      else (case ltz_init (h a) (h b) (h x) of
              Inl e \<Rightarrow> (Failed e, h)
            | Inr (s, xv) \<Rightarrow> ltz_loop (h(x := xv)) a x b (nat n) 1 s))"

text \<open>
  Modelled from the spec: the loop of the native routine on the contents of the three
  buffers alone, with \<open>x\<close> a buffer of its own. It is what \<open>ltz_loop\<close> computes when
  \<open>x\<close> aliases neither \<open>a\<close> nor \<open>b\<close> (lemma \<open>ltz_loop_run\<close>).
\<close>

function ltz_run ::
  "real list \<Rightarrow> real list \<Rightarrow> nat \<Rightarrow> nat \<Rightarrow> ltz_state \<Rightarrow> real list \<Rightarrow> ltz_return \<times> real list" where
  "ltz_run av bv n k s xv =
     (if n \<le> k then (LogDet (logdet s), xv)
      else (case ltz_order av bv xv k s of
              Inl e \<Rightarrow> (Failed e, xv)
            | Inr (s', xv') \<Rightarrow> ltz_run av bv n (Suc k) s' xv'))"
  by pat_completeness auto
termination
  by (relation "measure (\<lambda>(av, bv, n, k, s, xv). n - k)") auto

declare ltz_loop.simps [simp del]

declare ltz_run.simps [simp del]

text \<open>A heap with three arrays, at the references 0, 1 and 2, for concrete calls.\<close>

definition three_arrays :: "real list \<Rightarrow> real list \<Rightarrow> real list \<Rightarrow> heap" where
  "three_arrays u v w = (\<lambda>r. if r = 0 then u else if r = 1 then v else if r = 2 then w else [])"

section \<open>Facts about the matrix primitives\<close>

lemma toeplitz_nth:
  assumes "i < length c" "j < length r"
  shows "toeplitz c r ! i ! j = (if j \<le> i then c ! (i - j) else r ! (j - i))"
proof (cases "j \<le> i")
  case True
  have lt: "length c - 1 - i + j < length c" using assms True by arith
  have idx: "length c - Suc (length c - 1 - i + j) = i - j" using assms True by arith
  show ?thesis using assms True lt idx
    by (simp add: toeplitz_def Let_def nth_append rev_nth)
next
  case False
  have ge: "\<not> length c - 1 - i + j < length c" using assms False by arith
  have idx: "Suc (length c - 1 - i + j - length c) = j - i" using assms False by arith
  show ?thesis using assms False ge idx
    by (simp add: toeplitz_def Let_def nth_append nth_tl)
qed

lemma toeplitz_shape:
  "length (toeplitz c r) = length c"
  "i < length c \<Longrightarrow> length (toeplitz c r ! i) = length r"
  by (simp_all add: toeplitz_def Let_def)

section \<open>The block covariance matrix\<close>

text \<open>
  Claim C10. For the generating vectors \<open>a = ToeplitzKernel(X, Y)\<close> and
  \<open>b = ToeplitzKernel(Y, X)\<close>, \<^verbatim>\<open>CovarianceMatrixBlockToeplitz\<close> returns a matrix with
  \<open>length a\<close> rows of \<open>length b\<close> entries whose entry \<open>(i, j)\<close> is \<open>a[i - j]\<close> for
  \<open>i \<ge> j\<close> and \<open>b[j - i]\<close> for \<open>j > i\<close>; on the diagonal, and so in the top-left
  corner, the value is \<open>a[0]\<close> and \<open>b[0]\<close> is not used.
\<close>

theorem CovarianceMatrixBlockToeplitz_entries:
  "let a = ToeplitzKernel X Y theta False;
       b = ToeplitzKernel Y X theta False;
       K = CovarianceMatrixBlockToeplitz theta X Y ToeplitzKernel
   in length K = length a \<and>
      (\<forall>i<length a. length (K ! i) = length b \<and>
         (\<forall>j<length b. K ! i ! j = (if j \<le> i then a ! (i - j) else b ! (j - i))))"
  by (simp add: CovarianceMatrixBlockToeplitz_def Let_def toeplitz_shape toeplitz_nth)

theorem CovarianceMatrixBlockToeplitz_entries_witness:
  "CovarianceMatrixBlockToeplitz [1] [[0], [1], [2]] [[0], [1]]
       (\<lambda>X Y theta w. if length X = 3 then [10, 20, 30] else [77, 40]) ! 0 ! 0 = 10
   \<and> CovarianceMatrixBlockToeplitz [1] [[0], [1], [2]] [[0], [1]]
       (\<lambda>X Y theta w. if length X = 3 then [10, 20, 30] else [77, 40]) ! 0 ! 1 = 40
   \<and> CovarianceMatrixBlockToeplitz [1] [[0], [1], [2]] [[0], [1]]
       (\<lambda>X Y theta w. if length X = 3 then [10, 20, 30] else [77, 40]) ! 2 ! 1 = 20"
  using CovarianceMatrixBlockToeplitz_entries
          [where theta = "[1]" and X = "[[0], [1], [2]]" and Y = "[[0], [1]]"
             and ToeplitzKernel = "\<lambda>X Y theta w. if length X = 3 then [10, 20, 30] else [77, 40]"]
  by (simp add: Let_def)

section \<open>The diagonal corner block\<close>

text \<open>
  Claim C8. Whenever \<^verbatim>\<open>CovarianceMatrixCornerDiagToeplitzMult\<close> returns a matrix, with
  \<^verbatim>\<open>WhiteNoise\<close> true or false, the matrix is square and every entry off its diagonal
  is exactly zero.
\<close>

theorem CovarianceMatrixCornerDiagToeplitzMult_diagonal:
  assumes "CovarianceMatrixCornerDiagToeplitzMult theta X ToeplitzKernel mf mf_pars mf_args_pred
             WhiteNoise = Inr M"
  shows "\<forall>i<length M. length (M ! i) = length M \<and> (\<forall>j<length M. i \<noteq> j \<longrightarrow> M ! i ! j = 0)"
proof -
  from assms obtain v where "M = diag_of_vector v"
    by (auto simp: CovarianceMatrixCornerDiagToeplitzMult_def Let_def split: sum.splits if_splits)
  then show ?thesis
    by (simp add: diag_of_vector_def)
qed

theorem CovarianceMatrixCornerDiagToeplitzMult_diagonal_witness:
  "CovarianceMatrixCornerDiagToeplitzMult [1, 2] [[0], [1]] (\<lambda>X Y theta w. [5, 7])
      (\<lambda>p a. Scalar 3) () () True = Inr [[49, 0], [0, 49]]
   \<and> CovarianceMatrixCornerDiagToeplitzMult [1, 2] [[0], [1]] (\<lambda>X Y theta w. [5, 7])
      (\<lambda>p a. Scalar 3) () () False = Inr [[45, 0], [0, 45]]
   \<and> ([[49, 0], [0, 49]] :: matrix) ! 0 ! 1 = 0 \<and> ([[45, 0], [0, 45]] :: matrix) ! 1 ! 0 = 0"
proof -
  have on: "CovarianceMatrixCornerDiagToeplitzMult [1, 2] [[0], [1]] (\<lambda>X Y theta w. [5, 7])
      (\<lambda>p a. Scalar 3) () () True = Inr [[49, 0], [0, 49]]"
    by (simp add: CovarianceMatrixCornerDiagToeplitzMult_def Let_def shape0_def toeplitz_sym_def
          toeplitz_def matmul_def iadd_def diag_of_vector_def diag_of_matrix_def identity_def
          scale_def theta_last_def nrows_def ncols_def upt_rec)
  have off: "CovarianceMatrixCornerDiagToeplitzMult [1, 2] [[0], [1]] (\<lambda>X Y theta w. [5, 7])
      (\<lambda>p a. Scalar 3) () () False = Inr [[45, 0], [0, 45]]"
    by (simp add: CovarianceMatrixCornerDiagToeplitzMult_def Let_def shape0_def toeplitz_sym_def
          toeplitz_def matmul_def iadd_def diag_of_vector_def diag_of_matrix_def identity_def
          scale_def theta_last_def nrows_def ncols_def upt_rec)
  from CovarianceMatrixCornerDiagToeplitzMult_diagonal [OF on]
       CovarianceMatrixCornerDiagToeplitzMult_diagonal [OF off] on off
  show ?thesis by simp
qed

section \<open>The full covariance matrix with the affine mean transform\<close>

















section \<open>The rounding of binary64\<close>




































section \<open>The wrapper: what it checks and what it returns\<close>

lemma LTZSolve_mismatch:
  "size_nd h a \<noteq> size_nd h b \<or> size_nd h a \<noteq> size_nd h x \<Longrightarrow>
     LTZSolve LTZSolveC h a b x = (Inl AssertionError, h)"
  by (auto simp: LTZSolve_def)

lemma LTZSolve_agree:
  "size_nd h a = size_nd h b \<Longrightarrow> size_nd h a = size_nd h x \<Longrightarrow>
     LTZSolve LTZSolveC h a b x =
       (Inr (Tuple [CDouble (fst (LTZSolveC h a x b (int (size_nd h a)))), NDArray x]),
        snd (LTZSolveC h a x b (int (size_nd h a))))"
  by (simp add: LTZSolve_def split: prod.splits)

lemma size_three_arrays:
  "size_nd (three_arrays u v w) 0 = length u"
  "size_nd (three_arrays u v w) (Suc 0) = length v"
  "size_nd (three_arrays u v w) 2 = length w"
  by (simp_all add: size_nd_def three_arrays_def)

text \<open>
  Claim C2, as amended. For every input whose three sizes agree, \<^verbatim>\<open>LTZSolve\<close> returns
  the pair \<open>(logdet, x)\<close>: the double returned by the native routine first, the array
  \<open>x\<close> second.
\<close>

theorem LTZSolve_returns_logdet_then_x:
  assumes "size_nd h a = size_nd h b" and "size_nd h a = size_nd h x"
  shows "fst (LTZSolve LTZSolveC h a b x) =
           Inr (Tuple [CDouble (fst (LTZSolveC h a x b (int (size_nd h a)))), NDArray x])"
  using assms by (simp add: LTZSolve_agree)

theorem LTZSolve_returns_logdet_then_x_witness:
  "size_nd (three_arrays [2, 1] [3, 3] [0, 0]) 0 = size_nd (three_arrays [2, 1] [3, 3] [0, 0]) 1
   \<and> size_nd (three_arrays [2, 1] [3, 3] [0, 0]) 0 = size_nd (three_arrays [2, 1] [3, 3] [0, 0]) 2
   \<and> fst (LTZSolve LevinsonTrenchZoharSolve (three_arrays [2, 1] [3, 3] [0, 0]) 0 1 2) =
       Inr (Tuple [CDouble (fst (LevinsonTrenchZoharSolve (three_arrays [2, 1] [3, 3] [0, 0]) 0 2 1 2)),
                   NDArray 2])"
proof -
  have s1: "size_nd (three_arrays [2, 1] [3, 3] [0, 0]) 0 = size_nd (three_arrays [2, 1] [3, 3] [0, 0]) 1"
    by (simp add: size_three_arrays)
  have s2: "size_nd (three_arrays [2, 1] [3, 3] [0, 0]) 0 = size_nd (three_arrays [2, 1] [3, 3] [0, 0]) 2"
    by (simp add: size_three_arrays)
  from LTZSolve_returns_logdet_then_x [OF s1 s2, of LevinsonTrenchZoharSolve] s1 s2
  show ?thesis by (simp add: size_three_arrays)
qed

text \<open>
  The claim as stated, the solution vector first and the log-determinant second, fails on
  the system \<open>2 x\<^sub>0 + x\<^sub>1 = 3\<close>, \<open>x\<^sub>0 + 2 x\<^sub>1 = 3\<close>: the first component of the
  result is the double, the second the array.
\<close>

theorem LTZSolve_order_counterexample:
  "fst (LTZSolve LevinsonTrenchZoharSolve (three_arrays [2, 1] [3, 3] [0, 0]) 0 1 2) =
      Inr (Tuple [CDouble (LogDet (ln 2 + ln (3 / 2))), NDArray 2])
   \<and> fst (LTZSolve LevinsonTrenchZoharSolve (three_arrays [2, 1] [3, 3] [0, 0]) 0 1 2) \<noteq>
      Inr (Tuple [NDArray 2, CDouble (LogDet (ln 2 + ln (3 / 2)))])"
  by (simp add: LTZSolve_def size_nd_def three_arrays_def LevinsonTrenchZoharSolve_def
        ltz_init_def ltz_loop.simps ltz_order_def Let_def upt_rec power2_eq_square)

section \<open>Failure on the dimensions\<close>

lemma ltz_order_error:
  "ltz_order av bv xv k s = Inl e \<Longrightarrow> e = SingularMatrix"
  by (auto simp: ltz_order_def Let_def split: if_splits)

lemma ltz_loop_not_InvalidDimension:
  "fst (ltz_loop h a x b n k s) \<noteq> Failed InvalidDimension"
proof (induction h a x b n k s rule: ltz_loop.induct)
  case (1 h a x b n k s)
  show ?case
  proof (cases "n \<le> k")
    case True
    then show ?thesis by (simp add: ltz_loop.simps [of h a x b n k s])
  next
    case False
    show ?thesis
    proof (cases "ltz_order (h a) (h b) (h x) k s")
      case (Inl e)
      with False ltz_order_error [OF Inl] show ?thesis
        by (simp add: ltz_loop.simps [of h a x b n k s])
    next
      case (Inr p)
      obtain s' xv' where p: "p = (s', xv')" by (cases p)
      have eq: "ltz_loop h a x b n k s = ltz_loop (h(x := xv')) a x b n (Suc k) s'"
        using False Inr p by (simp add: ltz_loop.simps [of h a x b n k s])
      show ?thesis unfolding eq by (rule "1.IH" [OF False Inr [unfolded p] refl])
    qed
  qed
qed

lemma LevinsonTrenchZoharSolve_InvalidDimension:
  "n < 1 \<Longrightarrow> LevinsonTrenchZoharSolve h a x b n = (Failed InvalidDimension, h)"
  "\<not> n < 1 \<Longrightarrow> fst (LevinsonTrenchZoharSolve h a x b n) \<noteq> Failed InvalidDimension"
  by (auto simp: LevinsonTrenchZoharSolve_def ltz_init_def ltz_loop_not_InvalidDimension
        split: sum.splits if_splits)

text \<open>
  Claim C3. With the native routine as modelled above, a call of \<^verbatim>\<open>LTZSolve\<close> on arrays
  of doubles fails on the dimensions exactly when the sizes of \<open>a\<close>, \<open>b\<close> and \<open>x\<close>
  disagree or \<open>n < 1\<close>: with the \<^verbatim>\<open>AssertionError\<close> of lines 29--30 when the sizes
  differ, with the \<open>InvalidDimension\<close> signal of the native routine when they agree and
  \<open>n < 1\<close>. Either failure comes before any step of the recursion, and the heap, \<open>x\<close>
  included, is left as it was. No other error is raised.
\<close>

theorem LTZSolve_dimension_failure:
  "((fst (LTZSolve LevinsonTrenchZoharSolve h a b x) = Inl AssertionError
      \<or> fst (LTZSolve LevinsonTrenchZoharSolve h a b x)
            = Inr (Tuple [CDouble (Failed InvalidDimension), NDArray x]))
     \<longleftrightarrow> (size_nd h a \<noteq> size_nd h b \<or> size_nd h a \<noteq> size_nd h x \<or> size_nd h a < 1))
   \<and> ((fst (LTZSolve LevinsonTrenchZoharSolve h a b x) = Inl AssertionError
        \<or> fst (LTZSolve LevinsonTrenchZoharSolve h a b x)
              = Inr (Tuple [CDouble (Failed InvalidDimension), NDArray x]))
       \<longrightarrow> snd (LTZSolve LevinsonTrenchZoharSolve h a b x) = h)
   \<and> (isl (fst (LTZSolve LevinsonTrenchZoharSolve h a b x))
       \<longrightarrow> fst (LTZSolve LevinsonTrenchZoharSolve h a b x) = Inl AssertionError)"
proof (cases "size_nd h a \<noteq> size_nd h b \<or> size_nd h a \<noteq> size_nd h x")
  case True
  have eq: "LTZSolve LevinsonTrenchZoharSolve h a b x = (Inl AssertionError, h)"
    using True by (rule LTZSolve_mismatch)
  show ?thesis unfolding eq using True by auto
next
  case False
  then have ab: "size_nd h a = size_nd h b" and ax: "size_nd h a = size_nd h x" by simp_all
  let ?n = "int (size_nd h a)"
  have eq: "LTZSolve LevinsonTrenchZoharSolve h a b x =
              (Inr (Tuple [CDouble (fst (LevinsonTrenchZoharSolve h a x b ?n)), NDArray x]),
               snd (LevinsonTrenchZoharSolve h a x b ?n))"
    by (rule LTZSolve_agree [OF ab ax])
  show ?thesis
  proof (cases "size_nd h a < 1")
    case True
    then have "?n < 1" by simp
    then have "LevinsonTrenchZoharSolve h a x b ?n = (Failed InvalidDimension, h)"
      by (rule LevinsonTrenchZoharSolve_InvalidDimension(1))
    then show ?thesis unfolding eq using True by simp
  next
    case False
    then have "\<not> ?n < 1" by simp
    then have "fst (LevinsonTrenchZoharSolve h a x b ?n) \<noteq> Failed InvalidDimension"
      by (rule LevinsonTrenchZoharSolve_InvalidDimension(2))
    then show ?thesis unfolding eq using False ab ax by simp
  qed
qed

theorem LTZSolve_dimension_failure_witness:
  "LTZSolve LevinsonTrenchZoharSolve (three_arrays [] [] []) 0 1 2
     = (Inr (Tuple [CDouble (Failed InvalidDimension), NDArray 2]), three_arrays [] [] [])
   \<and> LTZSolve LevinsonTrenchZoharSolve (three_arrays [2, 1] [3] [0, 0]) 0 1 2
     = (Inl AssertionError, three_arrays [2, 1] [3] [0, 0])
   \<and> fst (LTZSolve LevinsonTrenchZoharSolve (three_arrays [2, 1] [3, 3] [0, 0]) 0 1 2)
     \<noteq> Inr (Tuple [CDouble (Failed InvalidDimension), NDArray 2])"
proof (intro conjI)
  show "LTZSolve LevinsonTrenchZoharSolve (three_arrays [] [] []) 0 1 2
     = (Inr (Tuple [CDouble (Failed InvalidDimension), NDArray 2]), three_arrays [] [] [])"
    by (simp add: LTZSolve_def size_three_arrays LevinsonTrenchZoharSolve_def)
  show "LTZSolve LevinsonTrenchZoharSolve (three_arrays [2, 1] [3] [0, 0]) 0 1 2
     = (Inl AssertionError, three_arrays [2, 1] [3] [0, 0])"
    by (simp add: LTZSolve_def size_three_arrays)
  have sizes: "\<not> (size_nd (three_arrays [2, 1] [3, 3] [0, 0]) 0
                    \<noteq> size_nd (three_arrays [2, 1] [3, 3] [0, 0]) 1
                 \<or> size_nd (three_arrays [2, 1] [3, 3] [0, 0]) 0
                    \<noteq> size_nd (three_arrays [2, 1] [3, 3] [0, 0]) 2
                 \<or> size_nd (three_arrays [2, 1] [3, 3] [0, 0]) 0 < 1)"
    by (simp add: size_three_arrays)
  from LTZSolve_dimension_failure [of "three_arrays [2, 1] [3, 3] [0, 0]" 0 1 2] sizes
  show "fst (LTZSolve LevinsonTrenchZoharSolve (three_arrays [2, 1] [3, 3] [0, 0]) 0 1 2)
     \<noteq> Inr (Tuple [CDouble (Failed InvalidDimension), NDArray 2])"
    by blast
qed

section \<open>The self-test does not reach the solver\<close>

text \<open>
  Claim C6. The self-test calls \<^verbatim>\<open>LTZSolve(a,b)\<close> with two arguments, so the call raises
  \<^verbatim>\<open>TypeError\<close>: the solver is not run on the example and nothing is compared. The heap
  holds the two arrays and nothing else is written.
\<close>

theorem main_block_raises_TypeError:
  "main_block LTZSolveC h = (Inl TypeError, h(0 := main_a, 1 := main_b))"
  by (simp add: main_block_def call_LTZSolve_def Let_def)

section \<open>The native routine writes only into \<open>x\<close>\<close>

lemma ltz_loop_frame:
  "r \<noteq> x \<Longrightarrow> snd (ltz_loop h a x b n k s) r = h r"
proof (induction h a x b n k s rule: ltz_loop.induct)
  case (1 h a x b n k s)
  show ?case
  proof (cases "n \<le> k")
    case True
    then show ?thesis by (simp add: ltz_loop.simps [of h a x b n k s])
  next
    case False
    show ?thesis
    proof (cases "ltz_order (h a) (h b) (h x) k s")
      case (Inl e)
      with False show ?thesis by (simp add: ltz_loop.simps [of h a x b n k s])
    next
      case (Inr p)
      obtain s' xv' where p: "p = (s', xv')" by (cases p)
      have "snd (ltz_loop h a x b n k s) r = snd (ltz_loop (h(x := xv')) a x b n (Suc k) s') r"
        using False Inr p by (simp add: ltz_loop.simps [of h a x b n k s])
      also have "\<dots> = (h(x := xv')) r"
        using "1.IH" [OF False Inr [unfolded p] refl "1.prems"] .
      also have "\<dots> = h r"
        using "1.prems" by simp
      finally show ?thesis .
    qed
  qed
qed

lemma LevinsonTrenchZoharSolve_frame:
  "r \<noteq> x \<Longrightarrow> snd (LevinsonTrenchZoharSolve h a x b n) r = h r"
  by (auto simp: LevinsonTrenchZoharSolve_def ltz_loop_frame split: sum.splits)

lemma ltz_order_length:
  "ltz_order av bv xv k s = Inr (s', xv') \<Longrightarrow> k < length xv \<Longrightarrow> length xv' = length xv"
  by (auto simp: ltz_order_def Let_def split: if_splits)

lemma ltz_order_untouched:
  assumes "ltz_order av bv xv k s = Inr (s', xv')" and "k < i" and "i < length xv"
  shows "xv' ! i = xv ! i"
proof -
  from assms(1) obtain pre mu where xv': "xv' = pre @ [mu] @ drop (Suc k) xv" and "length pre = k"
    by (auto simp: ltz_order_def Let_def split: if_splits)
  then have "xv' ! i = (drop (Suc k) xv) ! (i - Suc k)"
    using assms(2) by (simp add: nth_append)
  also have "\<dots> = xv ! i"
    using assms(2,3) by simp
  finally show ?thesis .
qed

text \<open>
  An order reads only the entries of \<open>x\<close> that the orders before it wrote: with another
  buffer that agrees on them, the state it computes and the entries it writes are the same.
\<close>

lemma ltz_order_agree:
  assumes agree: "\<forall>j<k. yv ! j = xv ! j"
  shows "ltz_order av bv yv k s =
           (case ltz_order av bv xv k s of
              Inl e \<Rightarrow> Inl e
            | Inr (s', xv') \<Rightarrow> Inr (s', take (Suc k) xv' @ drop (Suc k) yv))"
proof -
  have e1: "(\<Sum>j\<leftarrow>[0..<k]. av ! (k - j) * yv ! j) = (\<Sum>j\<leftarrow>[0..<k]. av ! (k - j) * xv ! j)"
    using agree by (intro arg_cong [where f = sum_list] map_cong) auto
  have e2: "map (\<lambda>j. yv ! j + c * g j) [0..<k] = map (\<lambda>j. xv ! j + c * g j) [0..<k]" for c g
    using agree by (intro map_cong) auto
  show ?thesis
    by (simp add: ltz_order_def Let_def e1 e2)
qed

lemma ltz_loop_run:
  assumes "x \<noteq> a" and "x \<noteq> b"
  shows "ltz_loop h a x b n k s =
           (fst (ltz_run (h a) (h b) n k s (h x)),
            h(x := snd (ltz_run (h a) (h b) n k s (h x))))"
  using assms
proof (induction h a x b n k s rule: ltz_loop.induct)
  case (1 h a x b n k s)
  show ?case
  proof (cases "n \<le> k")
    case True
    then show ?thesis
      by (simp add: ltz_loop.simps [of h a x b n k s] ltz_run.simps [of "h a" "h b" n k s "h x"])
  next
    case False
    show ?thesis
    proof (cases "ltz_order (h a) (h b) (h x) k s")
      case (Inl e)
      with False show ?thesis
        by (simp add: ltz_loop.simps [of h a x b n k s] ltz_run.simps [of "h a" "h b" n k s "h x"])
    next
      case (Inr p)
      obtain s' xv' where p: "p = (s', xv')" by (cases p)
      let ?h' = "h(x := xv')"
      have run: "ltz_run (h a) (h b) n k s (h x) = ltz_run (h a) (h b) n (Suc k) s' xv'"
        using False Inr p by (simp add: ltz_run.simps [of "h a" "h b" n k s "h x"])
      have "ltz_loop h a x b n k s = ltz_loop ?h' a x b n (Suc k) s'"
        using False Inr p by (simp add: ltz_loop.simps [of h a x b n k s])
      also have "\<dots> = (fst (ltz_run (?h' a) (?h' b) n (Suc k) s' (?h' x)),
                       ?h'(x := snd (ltz_run (?h' a) (?h' b) n (Suc k) s' (?h' x))))"
        using "1.IH" [OF False Inr [unfolded p] refl "1.prems"] .
      also have "\<dots> = (fst (ltz_run (h a) (h b) n (Suc k) s' xv'),
                       h(x := snd (ltz_run (h a) (h b) n (Suc k) s' xv')))"
        using "1.prems" by simp
      finally show ?thesis unfolding run .
    qed
  qed
qed

lemma ltz_run_length:
  "n \<le> length xv \<Longrightarrow> length (snd (ltz_run av bv n k s xv)) = length xv"
proof (induction av bv n k s xv rule: ltz_run.induct)
  case (1 av bv n k s xv)
  show ?case
  proof (cases "n \<le> k")
    case True
    then show ?thesis by (simp add: ltz_run.simps [of av bv n k s xv])
  next
    case False
    show ?thesis
    proof (cases "ltz_order av bv xv k s")
      case (Inl e)
      with False show ?thesis by (simp add: ltz_run.simps [of av bv n k s xv])
    next
      case (Inr p)
      obtain s' xv' where p: "p = (s', xv')" by (cases p)
      have len: "length xv' = length xv"
        using ltz_order_length [OF Inr [unfolded p]] False "1.prems" by simp
      have "length (snd (ltz_run av bv n (Suc k) s' xv')) = length xv'"
        using "1.IH" [OF False Inr [unfolded p] refl] "1.prems" len by simp
      then show ?thesis
        using False Inr p len by (simp add: ltz_run.simps [of av bv n k s xv])
    qed
  qed
qed

text \<open>
  Two runs from the same order and state, on buffers that agree on the entries written so
  far: the results are the same, and every entry of the final buffers is either the same
  in both or the one the run started with.
\<close>

lemma ltz_run_agree:
  assumes "\<forall>j<k. yv ! j = xv ! j" and "length yv = length xv" and "n \<le> length xv"
  shows "fst (ltz_run av bv n k s yv) = fst (ltz_run av bv n k s xv) \<and>
         (\<forall>i<length xv.
            snd (ltz_run av bv n k s yv) ! i = snd (ltz_run av bv n k s xv) ! i \<or>
            (snd (ltz_run av bv n k s yv) ! i = yv ! i \<and>
             snd (ltz_run av bv n k s xv) ! i = xv ! i))"
  using assms
proof (induction av bv n k s xv arbitrary: yv rule: ltz_run.induct)
  case (1 av bv n k s xv)
  note agree = "1.prems"(1) and leny = "1.prems"(2) and n = "1.prems"(3)
  show ?case
  proof (cases "n \<le> k")
    case True
    then show ?thesis
      by (simp add: ltz_run.simps [of av bv n k s xv] ltz_run.simps [of av bv n k s yv])
  next
    case False
    note step = ltz_order_agree [OF agree, of av bv s]
    show ?thesis
    proof (cases "ltz_order av bv xv k s")
      case (Inl e)
      with False step show ?thesis
        by (simp add: ltz_run.simps [of av bv n k s xv] ltz_run.simps [of av bv n k s yv])
    next
      case (Inr p)
      obtain s' xv' where p: "p = (s', xv')" by (cases p)
      define yv' where "yv' = take (Suc k) xv' @ drop (Suc k) yv"
      have ordx: "ltz_order av bv xv k s = Inr (s', xv')" using Inr p by simp
      have ordy: "ltz_order av bv yv k s = Inr (s', yv')"
        using step ordx by (simp add: yv'_def)
      have lenx': "length xv' = length xv"
        using ltz_order_length [OF ordx] False n by simp
      have k: "Suc k \<le> length xv" using False n by simp
      have leny': "length yv' = length xv'"
        using k lenx' leny by (simp add: yv'_def)
      have agree': "\<forall>j<Suc k. yv' ! j = xv' ! j"
        using k lenx' by (simp add: yv'_def nth_append)
      have restx: "xv' ! i = xv ! i" if "k < i" "i < length xv" for i
        using ltz_order_untouched [OF ordx that] .
      have resty: "yv' ! i = yv ! i" if "k < i" "i < length xv" for i
        using that k lenx' leny by (simp add: yv'_def nth_append)
      have runx: "ltz_run av bv n k s xv = ltz_run av bv n (Suc k) s' xv'"
        using False ordx by (simp add: ltz_run.simps [of av bv n k s xv])
      have runy: "ltz_run av bv n k s yv = ltz_run av bv n (Suc k) s' yv'"
        using False ordy by (simp add: ltz_run.simps [of av bv n k s yv])
      have n': "n \<le> length xv'" using n lenx' by simp
      note IH = "1.IH" [OF False Inr [unfolded p] refl agree' leny' n']
      have "snd (ltz_run av bv n (Suc k) s' yv') ! i = snd (ltz_run av bv n (Suc k) s' xv') ! i \<or>
            (snd (ltz_run av bv n (Suc k) s' yv') ! i = yv ! i \<and>
             snd (ltz_run av bv n (Suc k) s' xv') ! i = xv ! i)"
        if i: "i < length xv" for i
      proof (cases "i \<le> k")
        case True
        then have "yv' ! i = xv' ! i" using agree' by simp
        with IH i lenx' show ?thesis by auto
      next
        case False
        then have "yv' ! i = yv ! i" "xv' ! i = xv ! i"
          using resty restx i by simp_all
        with IH i lenx' show ?thesis by auto
      qed
      with IH show ?thesis by (simp add: runx runy)
    qed
  qed
qed

text \<open>
  A second call on the heap the first call left: the same result and the same heap.
\<close>

lemma LevinsonTrenchZoharSolve_again:
  assumes xa: "x \<noteq> a" and xb: "x \<noteq> b" and n: "nat n \<le> length (h x)"
  shows "LevinsonTrenchZoharSolve (snd (LevinsonTrenchZoharSolve h a x b n)) a x b n =
           LevinsonTrenchZoharSolve h a x b n"
proof (cases "n < 1 \<or> h a ! 0 \<le> 0")
  case True
  then have "snd (LevinsonTrenchZoharSolve h a x b n) = h"
    by (auto simp: LevinsonTrenchZoharSolve_def ltz_init_def)
  then show ?thesis by simp
next
  case False
  define s where "s = \<lparr>filt = [1], pivot = h a ! 0, logdet = ln (h a ! 0)\<rparr>"
  define v where "v = h b ! 0 / h a ! 0"
  define xv where "xv = [v] @ drop 1 (h x)"
  define out where "out = snd (ltz_run (h a) (h b) (nat n) 1 s xv)"
  define yv where "yv = [v] @ drop 1 out"
  have pos: "0 < nat n" using False by simp
  have lenxv: "length xv = length (h x)" using n pos by (simp add: xv_def)
  have nxv: "nat n \<le> length xv" using n lenxv by simp
  have lenout: "length out = length xv"
    using ltz_run_length [OF nxv] by (simp add: out_def)
  have lenyv: "length yv = length xv" using lenout lenxv n pos by (simp add: yv_def)
  have first: "LevinsonTrenchZoharSolve h a x b n =
                 (fst (ltz_run (h a) (h b) (nat n) 1 s xv), h(x := out))"
    using False xa xb
    by (simp add: LevinsonTrenchZoharSolve_def ltz_init_def ltz_loop_run s_def v_def xv_def out_def)
  let ?h1 = "h(x := out)"
  have second: "LevinsonTrenchZoharSolve ?h1 a x b n =
                 (fst (ltz_run (h a) (h b) (nat n) 1 s yv),
                  h(x := snd (ltz_run (h a) (h b) (nat n) 1 s yv)))"
    using False xa xb
    by (simp add: LevinsonTrenchZoharSolve_def ltz_init_def ltz_loop_run s_def v_def yv_def)
  have agree: "\<forall>j<1. yv ! j = xv ! j" by (simp add: yv_def xv_def)
  note Q = ltz_run_agree [OF agree lenyv nxv, of "h a" "h b" s]
  have "snd (ltz_run (h a) (h b) (nat n) 1 s yv) = out"
  proof (rule nth_equalityI)
    show "length (snd (ltz_run (h a) (h b) (nat n) 1 s yv)) = length out"
      using ltz_run_length [of "nat n" yv "h a" "h b" 1 s] nxv lenyv lenout by simp
  next
    fix i assume "i < length (snd (ltz_run (h a) (h b) (nat n) 1 s yv))"
    then have i: "i < length xv"
      using ltz_run_length [of "nat n" yv "h a" "h b" 1 s] nxv lenyv by simp
    have "yv ! i = out ! i" if "out ! i = xv ! i"
    proof (cases i)
      case 0
      with that show ?thesis by (simp add: yv_def xv_def)
    next
      case (Suc i')
      with i lenout show ?thesis by (simp add: yv_def)
    qed
    with Q i show "snd (ltz_run (h a) (h b) (nat n) 1 s yv) ! i = out ! i"
      by (auto simp: out_def)
  qed
  moreover have "fst (ltz_run (h a) (h b) (nat n) 1 s yv) = fst (ltz_run (h a) (h b) (nat n) 1 s xv)"
    using Q by simp
  ultimately show ?thesis by (simp add: first second)
qed

lemma ltz_loop_length:
  "n \<le> length (h x) \<Longrightarrow> length (snd (ltz_loop h a x b n k s) x) = length (h x)"
proof (induction h a x b n k s rule: ltz_loop.induct)
  case (1 h a x b n k s)
  show ?case
  proof (cases "n \<le> k")
    case True
    then show ?thesis by (simp add: ltz_loop.simps [of h a x b n k s])
  next
    case False
    show ?thesis
    proof (cases "ltz_order (h a) (h b) (h x) k s")
      case (Inl e)
      with False show ?thesis by (simp add: ltz_loop.simps [of h a x b n k s])
    next
      case (Inr p)
      obtain s' xv' where p: "p = (s', xv')" by (cases p)
      have len: "length xv' = length (h x)"
        using ltz_order_length [OF Inr [unfolded p]] False "1.prems" by simp
      have n': "n \<le> length ((h(x := xv')) x)"
        using "1.prems" len by simp
      have "snd (ltz_loop h a x b n k s) = snd (ltz_loop (h(x := xv')) a x b n (Suc k) s')"
        using False Inr p by (simp add: ltz_loop.simps [of h a x b n k s])
      moreover have "length (snd (ltz_loop (h(x := xv')) a x b n (Suc k) s') x)
                       = length ((h(x := xv')) x)"
        using "1.IH" [OF False Inr [unfolded p] refl n'] .
      ultimately show ?thesis using len by simp
    qed
  qed
qed

lemma LevinsonTrenchZoharSolve_length:
  assumes "nat n \<le> length (h x)"
  shows "length (snd (LevinsonTrenchZoharSolve h a x b n) x) = length (h x)"
proof (cases "n < 1 \<or> h a ! 0 \<le> 0")
  case True
  then show ?thesis
    by (auto simp: LevinsonTrenchZoharSolve_def ltz_init_def)
next
  case False
  define xv where "xv = [h b ! 0 / h a ! 0] @ drop 1 (h x)"
  have pos: "0 < nat n" using False by simp
  have len: "length xv = length (h x)"
    using assms pos by (simp add: xv_def)
  have "nat n \<le> length ((h(x := xv)) x)"
    using assms len by simp
  then have "length (snd (ltz_loop (h(x := xv)) a x b (nat n) 1 s) x) = length ((h(x := xv)) x)"
    for s
    by (rule ltz_loop_length [where h = "h(x := xv)" and x = x])
  with len False show ?thesis
    by (simp add: LevinsonTrenchZoharSolve_def ltz_init_def xv_def)
qed

section \<open>Frame and repeatability of a call\<close>

text \<open>
  Claim C5. With the native routine as modelled above, a call of \<^verbatim>\<open>LTZSolve\<close> changes no
  buffer but the one of \<open>x\<close>: every other array, and so \<open>a\<close> and \<open>b\<close> when \<open>x\<close> is
  neither of them, holds what it held before, and \<open>x\<close> keeps its size. When the call
  returns, the log-determinant is a double in the returned pair, not an array.
\<close>

theorem LTZSolve_writes_only_x:
  "(\<forall>r. r \<noteq> x \<longrightarrow> snd (LTZSolve LevinsonTrenchZoharSolve h a b x) r = h r)
   \<and> (x \<noteq> a \<longrightarrow> snd (LTZSolve LevinsonTrenchZoharSolve h a b x) a = h a)
   \<and> (x \<noteq> b \<longrightarrow> snd (LTZSolve LevinsonTrenchZoharSolve h a b x) b = h b)
   \<and> length (snd (LTZSolve LevinsonTrenchZoharSolve h a b x) x) = length (h x)
   \<and> (isl (fst (LTZSolve LevinsonTrenchZoharSolve h a b x))
        \<or> (\<exists>v. fst (LTZSolve LevinsonTrenchZoharSolve h a b x) = Inr (Tuple [CDouble v, NDArray x])))"
proof (cases "size_nd h a \<noteq> size_nd h b \<or> size_nd h a \<noteq> size_nd h x")
  case True
  then show ?thesis by (simp add: LTZSolve_mismatch)
next
  case False
  then have ab: "size_nd h a = size_nd h b" and ax: "size_nd h a = size_nd h x" by simp_all
  have n: "nat (int (size_nd h a)) \<le> length (h x)"
    using ax by (simp add: size_nd_def)
  show ?thesis
    using LevinsonTrenchZoharSolve_length [where h = h and x = x and a = a and b = b, OF n]
    by (simp add: LTZSolve_agree [OF ab ax] LevinsonTrenchZoharSolve_frame)
qed

theorem LTZSolve_writes_only_x_witness:
  "(2::nat) \<noteq> 0 \<and> (2::nat) \<noteq> 1
   \<and> snd (LTZSolve LevinsonTrenchZoharSolve (three_arrays [2, 1] [3, 3] [0, 0]) 0 1 2) 0 = [2, 1]
   \<and> snd (LTZSolve LevinsonTrenchZoharSolve (three_arrays [2, 1] [3, 3] [0, 0]) 0 1 2) 1 = [3, 3]
   \<and> length (snd (LTZSolve LevinsonTrenchZoharSolve (three_arrays [2, 1] [3, 3] [0, 0]) 0 1 2) 2) = 2"
  using LTZSolve_writes_only_x [of 2 "three_arrays [2, 1] [3, 3] [0, 0]" 0 1]
  by (simp add: three_arrays_def)

text \<open>
  Claim C7. With the native routine as modelled above and \<open>x\<close> aliasing neither \<open>a\<close>
  nor \<open>b\<close>, a second call with the same arguments, on the heap the first call left,
  returns the same value and leaves the same heap: the result does not depend on what
  \<open>x\<close> held, and nothing else is carried from one call to the next.
\<close>

theorem LTZSolve_twice:
  assumes xa: "x \<noteq> a" and xb: "x \<noteq> b"
  shows "LTZSolve LevinsonTrenchZoharSolve (snd (LTZSolve LevinsonTrenchZoharSolve h a b x)) a b x =
           LTZSolve LevinsonTrenchZoharSolve h a b x"
proof (cases "size_nd h a \<noteq> size_nd h b \<or> size_nd h a \<noteq> size_nd h x")
  case True
  then show ?thesis by (simp add: LTZSolve_mismatch)
next
  case False
  then have ab: "size_nd h a = size_nd h b" and ax: "size_nd h a = size_nd h x" by simp_all
  define n where "n = int (size_nd h a)"
  define h1 where "h1 = snd (LevinsonTrenchZoharSolve h a x b n)"
  have n: "nat n \<le> length (h x)"
    using ax by (simp add: n_def size_nd_def)
  have first: "LTZSolve LevinsonTrenchZoharSolve h a b x =
                 (Inr (Tuple [CDouble (fst (LevinsonTrenchZoharSolve h a x b n)), NDArray x]), h1)"
    by (simp add: LTZSolve_agree [OF ab ax] n_def h1_def)
  have sa: "size_nd h1 a = size_nd h a" and sb: "size_nd h1 b = size_nd h b"
    using xa xb by (simp_all add: size_nd_def h1_def LevinsonTrenchZoharSolve_frame)
  have sx: "size_nd h1 x = size_nd h x"
    using LevinsonTrenchZoharSolve_length [where h = h and x = x and a = a and b = b, OF n] by (simp add: size_nd_def h1_def)
  have ab1: "size_nd h1 a = size_nd h1 b" and ax1: "size_nd h1 a = size_nd h1 x"
    using ab ax sa sb sx by simp_all
  have again: "LevinsonTrenchZoharSolve h1 a x b n = LevinsonTrenchZoharSolve h a x b n"
    unfolding h1_def by (rule LevinsonTrenchZoharSolve_again [where h = h, OF xa xb n])
  have eq: "LevinsonTrenchZoharSolve h1 a x b (int (size_nd h1 a)) =
              LevinsonTrenchZoharSolve h a x b n"
    using again sa by (simp add: n_def)
  have "LTZSolve LevinsonTrenchZoharSolve h1 a b x =
          (Inr (Tuple [CDouble (fst (LevinsonTrenchZoharSolve h a x b n)), NDArray x]), h1)"
    by (simp only: LTZSolve_agree [OF ab1 ax1] eq) (simp add: h1_def)
  then show ?thesis by (simp add: first)
qed

theorem LTZSolve_twice_witness:
  "(2::nat) \<noteq> 0 \<and> (2::nat) \<noteq> 1
   \<and> LTZSolve LevinsonTrenchZoharSolve
        (snd (LTZSolve LevinsonTrenchZoharSolve (three_arrays [2, 1] [3, 3] [0, 0]) 0 1 2)) 0 1 2 =
      LTZSolve LevinsonTrenchZoharSolve (three_arrays [2, 1] [3, 3] [0, 0]) 0 1 2"
proof -
  have xa: "(2::nat) \<noteq> 0" and xb: "(2::nat) \<noteq> 1" by simp_all
  from LTZSolve_twice [OF xa xb, of "three_arrays [2, 1] [3, 3] [0, 0]"] xa xb
  show ?thesis by simp
qed

text \<open>
  On a concrete system the model computes the solution and the log-determinant: for
  \<open>a = [4, 2, 1]\<close> and \<open>b = [11, 16, 17]\<close> the routine writes \<open>x = [1, 2, 3]\<close> and
  returns \<open>ln 4 + ln 3 + ln 3\<close>, the logarithm of the determinant 36.
\<close>

lemma LevinsonTrenchZoharSolve_example:
  "fst (LTZSolve LevinsonTrenchZoharSolve (three_arrays [4, 2, 1] [11, 16, 17] [0, 0, 0]) 0 1 2) =
     Inr (Tuple [CDouble (LogDet (ln 4 + ln 3 + ln 3)), NDArray 2])
   \<and> snd (LTZSolve LevinsonTrenchZoharSolve (three_arrays [4, 2, 1] [11, 16, 17] [0, 0, 0]) 0 1 2) 2 =
     [1, 2, 3]"
  by (simp add: LTZSolve_def size_nd_def three_arrays_def LevinsonTrenchZoharSolve_def
        ltz_init_def ltz_loop.simps ltz_order_def Let_def upt_rec power2_eq_square)

end
